theory Spec2Isabelle
  imports Main "HOL-Library.Multiset"
begin

section \<open>Python values shared by the modules\<close>

text \<open>
  A Python \<open>str\<close> is modelled as a \<open>string\<close>; a character is read as a code point below
  256, where the only decimal digits (the class \<open>\d\<close> of \<open>re\<close>) are \<open>0\<close> to \<open>9\<close>.
  Python's \<open>int\<close> is \<open>int\<close>. Every exception the modelled code can raise is a value of
  \<open>py_error\<close>; the string of an \<open>AssertionError\<close> is the message of the failed
  \<open>assert\<close> (assertions are enabled, as they are unless the interpreter runs with \<open>-O\<close>),
  an \<open>OSError\<close> carries the error number of the failed system call, and an \<open>ApiError\<close>
  is whatever a call to the remote service raised, with its text.
\<close>

datatype os_errno = ENOENT | EACCES | EEXIST | ENOTDIR | EISDIR

datatype py_error =
    AssertionError string
  | KeyError string
  | ValueError
  | OSError os_errno
  | ApiError string
  | SystemExit int

subsection \<open>\<open>str(n)\<close> for an integer\<close>

definition digit_char :: "nat \<Rightarrow> char" where
  "digit_char d = char_of (48 + d)"

fun str_nat :: "nat \<Rightarrow> string" where
  "str_nat n = (if n < 10 then [digit_char n] else str_nat (n div 10) @ [digit_char (n mod 10)])"

declare str_nat.simps [simp del]

definition str_int :: "int \<Rightarrow> string" where
  "str_int i = (if i < 0 then CHR ''-'' # str_nat (nat (- i)) else str_nat (nat i))"

definition is_digit :: "char \<Rightarrow> bool" where
  "is_digit c = (48 \<le> (of_char c :: nat) \<and> (of_char c :: nat) \<le> 57)"



section \<open>Year of an album (\<open>main.get_album_year\<close>)\<close>

text \<open>
  \<open>datetime.datetime.fromtimestamp(t)\<close> converts seconds since the epoch to local civil
  time. The local zone is a parameter, its offset from UTC in seconds; the civil year of a
  day number is computed by the usual era arithmetic of the proleptic Gregorian calendar.
  A \<open>datetime\<close> holds years 1 to 9999 only: outside, \<open>fromtimestamp\<close> raises.
\<close>

definition civil_year :: "int \<Rightarrow> int" where
  "civil_year days =
     (let z = days + 719468;
          era = z div 146097;
          doe = z - era * 146097;
          yoe = (doe - doe div 1460 + doe div 36524 - doe div 146096) div 365;
          y = yoe + era * 400;
          doy = doe - (365 * yoe + yoe div 4 - yoe div 100);
          mp = (5 * doy + 2) div 153;
          m = (if mp < 10 then mp + 3 else mp - 9)
      in if m \<le> 2 then y + 1 else y)"

definition fromtimestamp_year :: "int \<Rightarrow> int \<Rightarrow> py_error + int" where
  "fromtimestamp_year utc_offset t =
     (let y = civil_year ((t + utc_offset) div 86400)
      in if 1 \<le> y \<and> y \<le> 9999 then Inr y else Inl ValueError)"

text \<open>
  The two patterns of \<open>get_album_year\<close> are sequences of single-character classes anchored
  at the start of the name; \<open>re_match\<close> returns the matched prefix (the one group of each
  pattern), or \<open>None\<close>.
\<close>

datatype char_class = Digit | Lit char

fun class_matches :: "char_class \<Rightarrow> char \<Rightarrow> bool" where
  "class_matches Digit c = is_digit c"
| "class_matches (Lit a) c = (c = a)"

fun re_match :: "char_class list \<Rightarrow> string \<Rightarrow> string option" where
  "re_match [] s = Some []"
| "re_match (k # ks) [] = None"
| "re_match (k # ks) (c # cs) =
     (if class_matches k c then map_option ((#) c) (re_match ks cs) else None)"

definition get_album_year :: "int \<Rightarrow> int \<Rightarrow> string \<Rightarrow> py_error + string" where
  "get_album_year utc_offset album_timestamp album_name =
     (case fromtimestamp_year utc_offset album_timestamp of
        Inl e \<Rightarrow> Inl e
      | Inr album_year \<Rightarrow>
          (case re_match [Digit, Digit, Digit, Digit] album_name of
             Some g \<Rightarrow> Inr g
           | None \<Rightarrow>
               (case re_match [Lit CHR ''2'', Digit] album_name of
                  Some g \<Rightarrow> Inr (''20'' @ g)
                | None \<Rightarrow> Inr (str_int album_year))))"



section \<open>Collecting folders (\<open>cache.collect_folders_recursive\<close>)\<close>

text \<open>
  One entry of a listing: the fields \<open>id\<close>, \<open>name\<close> and \<open>owner_user_id\<close> that the
  collector reads.
\<close>

record folder =
  f_id :: int
  f_name :: string
  f_owner :: int

text \<open>
  The client is the remote service as the program sees it: the two one-level folder
  listings, the album listing and the listing of the items of an album (entries with the
  fields the program reads). A call returns the entries of \<open>["data"]["list"]\<close>, or raises;
  \<open>Inl\<close> carries the text of the exception.
\<close>

record album =
  a_id :: int
  a_name :: string
  a_owner :: int
  a_create_time :: int

record image =
  i_filename :: string
  i_folder_id :: int
  i_owner :: int

record photos_client =
  list_folders :: "int \<Rightarrow> string + folder list"
  list_teams_folders :: "int \<Rightarrow> string + folder list"
  list_albums :: "string + album list"
  list_item_in_albums :: "int \<Rightarrow> string + image list"

type_synonym folders = "string \<rightharpoonup> string \<times> int"

definition list_fn :: "photos_client \<Rightarrow> bool \<Rightarrow> int \<Rightarrow> string + folder list" where
  "list_fn photos is_shared = (if is_shared then list_teams_folders photos else list_folders photos)"

definition fetch_error_message :: "bool \<Rightarrow> int \<Rightarrow> string \<Rightarrow> string" where
  "fetch_error_message is_shared folder_id err =
     ''Error fetching '' @ (if is_shared then ''shared'' else ''personal'')
       @ '' folders for ID '' @ str_int folder_id @ '': '' @ err"

definition add_current_level :: "folder list \<Rightarrow> folders" where
  "add_current_level items =
     fold (\<lambda>f m. m(str_int (f_id f) \<mapsto> (f_name f, f_owner f))) items Map.empty"

definition combine_results :: "folders \<Rightarrow> (folders \<times> string list) list \<Rightarrow> folders" where
  "combine_results m results = fold (\<lambda>r acc. acc ++ fst r) results m"

text \<open>
  The recursion follows the listing, which the service decides: nothing in the code bounds
  it, so the model takes fuel, and \<open>None\<close> is a walk that did not return within it. The
  result is the dictionary together with the lines written by \<open>tqdm.write\<close>.
  \<open>executor.map\<close> yields the children's results in the order of \<open>folder_ids\<close>, whatever
  the order the threads ran in, so the dictionary is merged in listing order; the lines are
  given in that order too (only their interleaving depends on the threads).
\<close>

fun collect_folders_recursive ::
  "nat \<Rightarrow> photos_client \<Rightarrow> int \<Rightarrow> bool \<Rightarrow> (folders \<times> string list) option" where
  "collect_folders_recursive 0 photos folder_id is_shared = None"
| "collect_folders_recursive (Suc n) photos folder_id is_shared =
     (case list_fn photos is_shared folder_id of
        Inl err \<Rightarrow> Some (Map.empty, [fetch_error_message is_shared folder_id err])
      | Inr items \<Rightarrow>
          if items = [] then Some (Map.empty, [])
          else
            (let folders = add_current_level items;
                 folder_ids = map f_id items
             in case those (map (\<lambda>fid. collect_folders_recursive n photos fid is_shared) folder_ids) of
                  None \<Rightarrow> None
                | Some results \<Rightarrow>
                    Some (combine_results folders results, concat (map snd results))))"

text \<open>
  What repeated one-level listing reaches from a root: the entries of the root's listing,
  and the entries of the listing of every entry reached. A failed listing reaches nothing.
\<close>

inductive_set reach :: "(int \<Rightarrow> string + folder list) \<Rightarrow> int \<Rightarrow> folder set"
  for lst :: "int \<Rightarrow> string + folder list" and root :: int where
  reach_root: "lst root = Inr items \<Longrightarrow> f \<in> set items \<Longrightarrow> f \<in> reach lst root"
| reach_step: "g \<in> reach lst root \<Longrightarrow> lst (f_id g) = Inr items \<Longrightarrow> f \<in> set items
     \<Longrightarrow> f \<in> reach lst root"




text \<open>
  The client of the repository's tests (\<open>mock_photos_client\<close>), and the same client with
  the listing of the shared folder 3 failing.
\<close>

definition test_client :: photos_client where
  "test_client =
     \<lparr>list_folders = (\<lambda>i.
        if i = 0 then Inr [\<lparr>f_id = 1, f_name = ''/Photos'', f_owner = 0\<rparr>,
                           \<lparr>f_id = 2, f_name = ''/Photos/2023'', f_owner = 0\<rparr>]
        else if i = 1 then Inr [\<lparr>f_id = 5, f_name = ''/Photos/SubFolder'', f_owner = 0\<rparr>]
        else Inr []),
      list_teams_folders = (\<lambda>i.
        if i = 0 then Inr [\<lparr>f_id = 3, f_name = ''/Shared'', f_owner = 1\<rparr>,
                           \<lparr>f_id = 4, f_name = ''/Shared/Family'', f_owner = 1\<rparr>]
        else if i = 3 then Inr [\<lparr>f_id = 5, f_name = ''/Shared/SubFolder'', f_owner = 1\<rparr>]
        else Inr []),
      list_albums =
        Inr [\<lparr>a_id = 1, a_name = ''2023 Summer'', a_owner = 0, a_create_time = 1672531200\<rparr>],
      list_item_in_albums = (\<lambda>i.
        Inr [\<lparr>i_filename = ''photo1.jpg'', i_folder_id = 2, i_owner = 0\<rparr>])\<rparr>"


section \<open>The cache file (\<open>cache.cache_folders\<close>, \<open>cache.load_cached_folders\<close>)\<close>

text \<open>
  The values that pass through the cache: Python strings, integers, tuples and lists. The
  collector stores a tuple \<open>(name, owner_user_id)\<close> under each key (the pair of the model's
  \<open>folders\<close>); \<open>dict_of_folders\<close> is that dictionary as a Python object.
\<close>

datatype pyval = PyStr string | PyInt int | PyTuple "pyval list" | PyList "pyval list"

type_synonym py_dict = "string \<rightharpoonup> pyval"

definition tuple_of_record :: "string \<times> int \<Rightarrow> pyval" where
  "tuple_of_record r = PyTuple [PyStr (fst r), PyInt (snd r)]"

definition dict_of_folders :: "folders \<Rightarrow> py_dict" where
  "dict_of_folders m = map_option tuple_of_record \<circ> m"

text \<open>
  The module \<open>json\<close> of the standard library, by its conversion table: \<open>json.dump\<close>
  writes a string as a JSON string, an integer as a number, and a tuple or a list as an
  array; \<open>json.load\<close> reads an array as a list. The text of the file is not modelled: a
  file holds the JSON document that its text denotes, an object with string keys.
\<close>

datatype json = JString string | JNumber int | JArray "json list"

type_synonym json_object = "string \<rightharpoonup> json"

fun json_of_pyval :: "pyval \<Rightarrow> json" where
  "json_of_pyval (PyStr s) = JString s"
| "json_of_pyval (PyInt i) = JNumber i"
| "json_of_pyval (PyTuple vs) = JArray (map json_of_pyval vs)"
| "json_of_pyval (PyList vs) = JArray (map json_of_pyval vs)"

fun pyval_of_json :: "json \<Rightarrow> pyval" where
  "pyval_of_json (JString s) = PyStr s"
| "pyval_of_json (JNumber i) = PyInt i"
| "pyval_of_json (JArray js) = PyList (map pyval_of_json js)"

definition json_dump :: "py_dict \<Rightarrow> json_object" where
  "json_dump d = map_option json_of_pyval \<circ> d"

definition json_load :: "json_object \<Rightarrow> py_dict" where
  "json_load j = map_option pyval_of_json \<circ> j"

text \<open>The configuration module: the fields that the cache and the link builder read.\<close>

record config =
  CACHE_FILE :: string
  PHOTO_ROOTS :: "int \<rightharpoonup> string"

type_synonym files = "string \<rightharpoonup> json_object"

text \<open>
  The last step of \<open>cache_folders\<close> (the \<open>open(config.CACHE_FILE, "w")\<close> block, after the
  clients have been walked): the whole dictionary replaces the file.
\<close>

definition write_cache_file :: "folders \<Rightarrow> config \<Rightarrow> files \<Rightarrow> files" where
  "write_cache_file all_folders cfg fs = fs(CACHE_FILE cfg \<mapsto> json_dump (dict_of_folders all_folders))"

text \<open>\<open>load_cached_folders\<close>: a missing file prints a message and calls \<open>exit(1)\<close>.\<close>

definition load_cached_folders :: "config \<Rightarrow> files \<Rightarrow> py_error + py_dict" where
  "load_cached_folders cfg fs =
     (case fs (CACHE_FILE cfg) of
        None \<Rightarrow> Inl (SystemExit 1)
      | Some doc \<Rightarrow> Inr (json_load doc))"

text \<open>
  The link builder reads an entry with \<open>folder_name, owner_id = all_folders[folder_id]\<close>,
  which unpacks a tuple or a list of two elements alike.
\<close>

fun unpack_record :: "pyval \<Rightarrow> (string \<times> int) option" where
  "unpack_record (PyTuple [PyStr name, PyInt owner]) = Some (name, owner)"
| "unpack_record (PyList [PyStr name, PyInt owner]) = Some (name, owner)"
| "unpack_record v = None"

definition list_of_record :: "string \<times> int \<Rightarrow> pyval" where
  "list_of_record r = PyList [PyStr (fst r), PyInt (snd r)]"

definition default_config :: config where
  "default_config =
     \<lparr>CACHE_FILE = ''folders_cache.json'',
      PHOTO_ROOTS = [0 \<mapsto> ''/Volumes/homes/User1/Photos'', 2 \<mapsto> ''/Volumes/homes/User2/Photos'']\<rparr>"

section \<open>Paths (\<open>pathlib\<close>)\<close>

text \<open>
  A pure POSIX path is its root (empty for a relative path, \<open>/\<close>, or \<open>//\<close> for exactly
  two leading slashes) and its parts: the components between slashes, without the empty
  ones and without \<open>.\<close>; \<open>..\<close> is kept. \<open>path_div p s\<close> is \<open>p / s\<close>: a rooted right
  operand replaces the left one. \<open>str_path\<close> is \<open>str(p)\<close>, the text \<open>os.symlink\<close> stores.
\<close>

type_synonym path = "string \<times> string list"

fun split_on :: "char \<Rightarrow> string \<Rightarrow> string list" where
  "split_on c [] = [[]]"
| "split_on c (x # xs) =
     (if x = c then [] # split_on c xs
      else (case split_on c xs of [] \<Rightarrow> [[x]] | w # ws \<Rightarrow> (x # w) # ws))"

fun join_slash :: "string list \<Rightarrow> string" where
  "join_slash [] = []"
| "join_slash [p] = p"
| "join_slash (p # q # ps) = p @ ''/'' @ join_slash (q # ps)"

definition parse_path :: "string \<Rightarrow> path" where
  "parse_path s =
     (if take 2 s = ''//'' \<and> take 3 s \<noteq> ''///'' then ''//''
      else if take 1 s = ''/'' then ''/'' else [],
      filter (\<lambda>p. p \<noteq> [] \<and> p \<noteq> ''.'') (split_on CHR ''/'' s))"

definition join_path :: "path \<Rightarrow> path \<Rightarrow> path" where
  "join_path p q = (if fst q \<noteq> [] then q else (fst p, snd p @ snd q))"

definition path_div :: "path \<Rightarrow> string \<Rightarrow> path" where
  "path_div p s = join_path p (parse_path s)"

definition str_path :: "path \<Rightarrow> string" where
  "str_path p = (if fst p = [] \<and> snd p = [] then ''.'' else fst p @ join_slash (snd p))"

definition parent :: "path \<Rightarrow> path" where
  "parent p = (fst p, butlast (snd p))"

text \<open>\<open>s.replace("/", "_")\<close>\<close>

definition replace_slash :: "string \<Rightarrow> string" where
  "replace_slash s = map (\<lambda>c. if c = CHR ''/'' then CHR ''_'' else c) s"

section \<open>The file system\<close>

text \<open>
  The link tree is a map from the paths the program names to what is there: a directory, a
  regular file, or a symbolic link with its text. Two facts come from outside the tree and
  are parameters: \<open>denied\<close>, the paths where creating or removing an entry is refused
  (\<open>EACCES\<close>), and \<open>follow\<close>, what a link at a path with a given text leads to (nothing
  when it dangles). The zone of the local clock is a parameter too. A path is taken for the
  entry it names: its directory is the one \<open>mkdir\<close> made just before, so the calls below
  look at the entry itself only.
\<close>

datatype node = Dir | File | Link string

datatype kind = KDir | KFile

type_synonym fs = "path \<rightharpoonup> node"

record os_env =
  denied :: "path \<Rightarrow> bool"
  follow :: "path \<Rightarrow> string \<Rightarrow> kind option"
  local_offset :: int

text \<open>
  The state of a run: the tree, the lines written by \<open>tqdm.write\<close>, and a record of the
  system calls that succeeded. A successful \<open>os.symlink\<close> is recorded with the place in the
  program that made it: the link to the owner's photo root, or the link of an item.
\<close>

datatype site = OwnerLink | ItemLink

datatype event = MadeDir path | Unlinked path | Symlinked site path string

record world =
  w_fs :: fs
  w_log :: "string list"
  w_trace :: "event list"

definition path_exists :: "os_env \<Rightarrow> world \<Rightarrow> path \<Rightarrow> bool" where
  "path_exists env w p =
     (case w_fs w p of
        None \<Rightarrow> False
      | Some (Link t) \<Rightarrow> follow env p t \<noteq> None
      | Some n \<Rightarrow> True)"

definition is_dir :: "os_env \<Rightarrow> world \<Rightarrow> path \<Rightarrow> bool" where
  "is_dir env w p =
     (case w_fs w p of
        Some Dir \<Rightarrow> True
      | Some (Link t) \<Rightarrow> follow env p t = Some KDir
      | other \<Rightarrow> False)"

definition os_symlink :: "os_env \<Rightarrow> site \<Rightarrow> string \<Rightarrow> path \<Rightarrow> world \<Rightarrow> os_errno + world" where
  "os_symlink env st target p w =
     (case w_fs w p of
        Some n \<Rightarrow> Inl EEXIST
      | None \<Rightarrow>
          if denied env p then Inl EACCES
          else Inr (w\<lparr>w_fs := (w_fs w)(p \<mapsto> Link target),
                      w_trace := w_trace w @ [Symlinked st p target]\<rparr>))"

definition os_unlink :: "os_env \<Rightarrow> path \<Rightarrow> world \<Rightarrow> os_errno + world" where
  "os_unlink env p w =
     (case w_fs w p of
        None \<Rightarrow> Inl ENOENT
      | Some Dir \<Rightarrow> Inl EISDIR
      | Some n \<Rightarrow>
          if denied env p then Inl EACCES
          else Inr (w\<lparr>w_fs := (w_fs w)(p := None), w_trace := w_trace w @ [Unlinked p]\<rparr>))"

text \<open>
  \<open>Path.mkdir(parents=True, exist_ok=True)\<close>, from the top of the path down: a missing
  component is created; an existing one must be a directory or a link to one, otherwise the
  call raises (\<open>FileExistsError\<close>, or \<open>NotADirectoryError\<close> for a file on the way). What
  was created before the failure stays.
\<close>

type_synonym command = "world \<Rightarrow> py_error option \<times> world"

definition mkdir_component :: "os_env \<Rightarrow> bool \<Rightarrow> path \<Rightarrow> command" where
  "mkdir_component env is_last q w =
     (case w_fs w q of
        None \<Rightarrow>
          if denied env q then (Some (OSError EACCES), w)
          else (None, w\<lparr>w_fs := (w_fs w)(q \<mapsto> Dir), w_trace := w_trace w @ [MadeDir q]\<rparr>)
      | Some Dir \<Rightarrow> (None, w)
      | Some File \<Rightarrow> (Some (OSError (if is_last then EEXIST else ENOTDIR)), w)
      | Some (Link t) \<Rightarrow>
          (case follow env q t of
             Some KDir \<Rightarrow> (None, w)
           | Some KFile \<Rightarrow> (Some (OSError (if is_last then EEXIST else ENOTDIR)), w)
           | None \<Rightarrow> (Some (OSError EEXIST), w)))"

text \<open>One command after another; an exception ends the sequence.\<close>

definition and_then :: "command \<Rightarrow> command \<Rightarrow> command" where
  "and_then c d w = (case c w of (Some e, w') \<Rightarrow> (Some e, w') | (None, w') \<Rightarrow> d w')"

fun for_each :: "('a \<Rightarrow> command) \<Rightarrow> 'a list \<Rightarrow> command" where
  "for_each body [] w = (None, w)"
| "for_each body (x # xs) w = and_then (body x) (for_each body xs) w"

definition prefixes_of :: "path \<Rightarrow> (bool \<times> path) list" where
  "prefixes_of p =
     map (\<lambda>k. (k = length (snd p), (fst p, take k (snd p)))) [1 ..< Suc (length (snd p))]"

definition mkdir_parents :: "os_env \<Rightarrow> path \<Rightarrow> command" where
  "mkdir_parents env p = for_each (\<lambda>(is_last, q). mkdir_component env is_last q) (prefixes_of p)"

section \<open>The link builder (\<open>main.create_album_links\<close>)\<close>

text \<open>
  The text of an \<open>OSError\<close> in a log line is its error number and message (Python adds
  the two paths of the call).
\<close>

definition strerror :: "os_errno \<Rightarrow> string" where
  "strerror e =
     (case e of
        ENOENT \<Rightarrow> ''[Errno 2] No such file or directory''
      | EACCES \<Rightarrow> ''[Errno 13] Permission denied''
      | EEXIST \<Rightarrow> ''[Errno 17] File exists''
      | ENOTDIR \<Rightarrow> ''[Errno 20] Not a directory''
      | EISDIR \<Rightarrow> ''[Errno 21] Is a directory'')"

definition symlink_error_line :: "string \<Rightarrow> os_errno \<Rightarrow> string" where
  "symlink_error_line filename e = ''Error creating symlink for '' @ filename @ '': '' @ strerror e"

definition folder_not_found_message :: "string \<Rightarrow> string \<Rightarrow> string \<Rightarrow> string" where
  "folder_not_found_message folder_id filename album_name =
     ''Folder ID '' @ folder_id @ '' not found for '' @ filename @ '' in '' @ album_name"

definition no_photo_root_message :: "int \<Rightarrow> string \<Rightarrow> string \<Rightarrow> string" where
  "no_photo_root_message owner_id album_name filename =
     ''No photo root configured for owner ID '' @ str_int owner_id
       @ '' in '' @ album_name @ '' of '' @ filename"

definition owner_mismatch_message :: "int \<Rightarrow> int \<Rightarrow> string \<Rightarrow> string \<Rightarrow> string" where
  "owner_mismatch_message image_owner_id owner_id album_name filename =
     ''Image owner ID '' @ str_int image_owner_id @ '' does not match owner ID ''
       @ str_int owner_id @ '' in '' @ album_name @ '' of '' @ filename"

text \<open>
  The two blocks \<open>try: if not p.exists(): os.symlink(target, p)\<close> with
  \<open>except OSError\<close> writing a line: one for the owner's root link, one for the item's link.
\<close>

definition try_symlink :: "os_env \<Rightarrow> site \<Rightarrow> string \<Rightarrow> string \<Rightarrow> path \<Rightarrow> command" where
  "try_symlink env st filename target p w =
     (if \<not> path_exists env w p then
        (case os_symlink env st target p w of
           Inl e \<Rightarrow> (None, w\<lparr>w_log := w_log w @ [symlink_error_line filename e]\<rparr>)
         | Inr w' \<Rightarrow> (None, w'))
      else (None, w))"

text \<open>\<open>try: link_path.unlink()\<close> with a bare \<open>except: pass\<close>.\<close>

definition unlink_quiet :: "os_env \<Rightarrow> path \<Rightarrow> command" where
  "unlink_quiet env p w = (case os_unlink env p w of Inl e \<Rightarrow> (None, w) | Inr w' \<Rightarrow> (None, w'))"

definition albums_root :: path where
  "albums_root = parse_path ''albums''"

definition owner_link_path :: "int \<Rightarrow> path" where
  "owner_link_path image_owner_id = path_div (path_div albums_root ''users'') (str_int image_owner_id)"

definition source_path :: "int \<Rightarrow> string \<Rightarrow> string \<Rightarrow> path" where
  "source_path image_owner_id folder_name filename =
     path_div (path_div (path_div (path_div (parse_path ''../../'') ''users'') (str_int image_owner_id))
       (drop 1 folder_name)) filename"

definition album_path :: "string \<Rightarrow> string \<Rightarrow> path" where
  "album_path year album_name = path_div (path_div albums_root year) (replace_slash album_name)"

text \<open>
  The body of the loop over the items of an album. An entry of the cache that is not a
  sequence of a name and an owner id makes the unpacking raise.
\<close>

definition process_image ::
  "os_env \<Rightarrow> config \<Rightarrow> py_dict \<Rightarrow> string \<Rightarrow> path \<Rightarrow> image \<Rightarrow> command" where
  "process_image env cfg all_folders album_name apath img w =
     (let folder_id = str_int (i_folder_id img); filename = i_filename img in
      case all_folders folder_id of
        None \<Rightarrow> (Some (AssertionError (folder_not_found_message folder_id filename album_name)), w)
      | Some entry \<Rightarrow>
          (let image_owner_id = i_owner img in
           case PHOTO_ROOTS cfg image_owner_id of
             None \<Rightarrow> (Some (KeyError (str_int image_owner_id)), w)
           | Some root \<Rightarrow>
               and_then (mkdir_parents env (parent (owner_link_path image_owner_id)))
                (and_then
                  (try_symlink env OwnerLink filename (str_path (parse_path root))
                     (owner_link_path image_owner_id))
                  (\<lambda>w. case unpack_record entry of
                     None \<Rightarrow> (Some ValueError, w)
                   | Some (folder_name, owner_id) \<Rightarrow>
                       if PHOTO_ROOTS cfg owner_id = None
                       then (Some (AssertionError (no_photo_root_message owner_id album_name filename)), w)
                       else if image_owner_id \<noteq> owner_id
                       then (Some (AssertionError
                               (owner_mismatch_message image_owner_id owner_id album_name filename)), w)
                       else and_then (unlink_quiet env (path_div apath filename))
                              (try_symlink env ItemLink filename
                                 (str_path (source_path image_owner_id folder_name filename))
                                 (path_div apath filename)) w)) w))"

definition process_album :: "os_env \<Rightarrow> photos_client \<Rightarrow> config \<Rightarrow> py_dict \<Rightarrow> album \<Rightarrow> command" where
  "process_album env photos cfg all_folders alb w =
     (case get_album_year (local_offset env) (a_create_time alb) (a_name alb) of
        Inl e \<Rightarrow> (Some e, w)
      | Inr year \<Rightarrow>
          and_then (mkdir_parents env (album_path year (a_name alb)))
            (\<lambda>w. case list_item_in_albums photos (a_id alb) of
                    Inl err \<Rightarrow> (Some (ApiError err), w)
                  | Inr images \<Rightarrow>
                      for_each (process_image env cfg all_folders (a_name alb)
                                  (album_path year (a_name alb))) images w) w)"

definition create_album_links :: "os_env \<Rightarrow> photos_client \<Rightarrow> config \<Rightarrow> files \<Rightarrow> command" where
  "create_album_links env photos cfg files w =
     (case load_cached_folders cfg files of
        Inl e \<Rightarrow> (Some e, w)
      | Inr all_folders \<Rightarrow>
          (case list_albums photos of
             Inl err \<Rightarrow> (Some (ApiError err), w)
           | Inr albums \<Rightarrow> for_each (process_album env photos cfg all_folders) albums w))"

text \<open>A system where nothing is refused and every link leads to a directory; an empty tree.\<close>

definition plain_env :: os_env where
  "plain_env = \<lparr>denied = (\<lambda>p. False), follow = (\<lambda>p t. Some KDir), local_offset = 0\<rparr>"

definition empty_world :: world where
  "empty_world = \<lparr>w_fs = Map.empty, w_log = [], w_trace = []\<rparr>"

text \<open>The cache file that the collector writes for the personal folders of the test client.\<close>

definition test_files :: files where
  "test_files =
     write_cache_file
       [''1'' \<mapsto> (''/Photos'', 0), ''2'' \<mapsto> (''/Photos/2023'', 0), ''5'' \<mapsto> (''/Photos/SubFolder'', 0)]
       default_config Map.empty"

text \<open>The item links that a run has created so far, by its record of system calls.\<close>

definition item_links_made :: "world \<Rightarrow> (path \<times> string) set" where
  "item_links_made w = {(p, t). Symlinked ItemLink p t \<in> set (w_trace w)}"

text \<open>A system that refuses to create or remove the entry of one item link.\<close>

definition locked_env :: os_env where
  "locked_env =
     plain_env\<lparr>denied := (\<lambda>p. p = ([], [''albums'', ''2023'', ''2023 Summer'', ''photo1.jpg'']))\<rparr>"

section \<open>Decimal printing is injective\<close>






lemma str_nat_not_Nil: "str_nat n \<noteq> []"
  by (subst str_nat.simps) simp




section \<open>Properties of \<open>get_album_year\<close>\<close>






section \<open>Properties of the folder collector\<close>














lemma collect_Suc_Inl:
  "list_fn photos sh root = Inl err \<Longrightarrow>
   collect_folders_recursive (Suc n) photos root sh = Some (Map.empty, [fetch_error_message sh root err])"
  by simp



















section \<open>Properties of the cache file\<close>

text \<open>
  C2, as stated, fails: JSON has arrays only, so the tuple stored under a key comes back as
  a list, and in Python a list never equals a tuple. Saving the dictionary
  \<open>{"1": ("/Photos", 0)}\<close> and loading it gives \<open>{"1": ["/Photos", 0]}\<close>.
\<close>

theorem cache_round_trip_counterexample:
  "load_cached_folders default_config
     (write_cache_file [''1'' \<mapsto> (''/Photos'', 0)] default_config Map.empty)
   \<noteq> Inr (dict_of_folders [''1'' \<mapsto> (''/Photos'', 0)])"
proof
  assume "load_cached_folders default_config
     (write_cache_file [''1'' \<mapsto> (''/Photos'', 0)] default_config Map.empty)
   = Inr (dict_of_folders [''1'' \<mapsto> (''/Photos'', 0)])"
  then have "json_load (json_dump (dict_of_folders [''1'' \<mapsto> (''/Photos'', 0)])) ''1''
     = dict_of_folders [''1'' \<mapsto> (''/Photos'', 0)] ''1''"
    by (simp add: load_cached_folders_def write_cache_file_def)
  then show False
    by (simp add: json_load_def json_dump_def dict_of_folders_def tuple_of_record_def)
qed

text \<open>
  C2, amended: saving a folder dictionary and loading the file back gives a dictionary with
  the same keys, in which the value of each key is the two-element list of the name and the
  owner id of the original tuple; unpacked as the link builder unpacks it, each loaded value
  gives the name and the owner id of the original entry.
\<close>

theorem cache_round_trip:
  "load_cached_folders cfg (write_cache_file all_folders cfg fs)
     = Inr (map_option list_of_record \<circ> all_folders)
   \<and> (\<forall>d. load_cached_folders cfg (write_cache_file all_folders cfg fs) = Inr d \<longrightarrow>
         dom d = dom all_folders \<and> (\<forall>k v. d k = Some v \<longrightarrow> unpack_record v = all_folders k))"
proof -
  have "json_load (json_dump (dict_of_folders all_folders)) = map_option list_of_record \<circ> all_folders"
  proof (rule ext)
    fix k
    show "json_load (json_dump (dict_of_folders all_folders)) k
            = (map_option list_of_record \<circ> all_folders) k"
      by (cases "all_folders k")
        (simp_all add: json_load_def json_dump_def dict_of_folders_def tuple_of_record_def
          list_of_record_def)
  qed
  then have l: "load_cached_folders cfg (write_cache_file all_folders cfg fs)
     = Inr (map_option list_of_record \<circ> all_folders)"
    by (simp add: load_cached_folders_def write_cache_file_def)
  show ?thesis
    unfolding l by (auto simp: list_of_record_def dom_def)
qed

theorem cache_round_trip_witness:
  "\<exists>d. load_cached_folders default_config
         (write_cache_file [''1'' \<mapsto> (''/Photos'', 0)] default_config Map.empty) = Inr d
       \<and> d ''1'' = Some (PyList [PyStr ''/Photos'', PyInt 0])
       \<and> unpack_record (PyList [PyStr ''/Photos'', PyInt 0]) = Some (''/Photos'', 0)"
  using cache_round_trip [of default_config "[''1'' \<mapsto> (''/Photos'', 0)]" Map.empty]
  by (simp add: list_of_record_def)

section \<open>Errors of the link builder\<close>

lemma for_each_aborts:
  "x \<in> set xs \<Longrightarrow> (\<And>w. fst (body x w) \<noteq> None) \<Longrightarrow> fst (for_each body xs w) \<noteq> None"
proof (induction xs arbitrary: w)
  case Nil
  then show ?case by simp
next
  case (Cons y ys)
  show ?case
  proof (cases "body y w")
    case (Pair r w')
    show ?thesis
    proof (cases r)
      case None
      with Pair Cons.prems(1) Cons.prems(2) [of w] have "x \<in> set ys" by auto
      from Cons.IH [OF this Cons.prems(2)] Pair None show ?thesis
        by (simp add: and_then_def)
    next
      case (Some e)
      with Pair show ?thesis by (simp add: and_then_def)
    qed
  qed
qed

lemma and_then_aborts_right:
  "(\<And>w'. fst (d w') \<noteq> None) \<Longrightarrow> fst (and_then c d w) \<noteq> None"
  by (cases "c w") (auto simp: and_then_def split: option.splits)

lemma process_album_aborts:
  assumes "list_item_in_albums photos (a_id alb) = Inr images" and "img \<in> set images"
    and "\<And>apath w. fst (process_image env cfg all_folders (a_name alb) apath img w) \<noteq> None"
  shows "fst (process_album env photos cfg all_folders alb w) \<noteq> None"
proof (cases "get_album_year (local_offset env) (a_create_time alb) (a_name alb)")
  case (Inl e)
  then show ?thesis by (simp add: process_album_def)
next
  case (Inr year)
  have "fst (for_each (process_image env cfg all_folders (a_name alb) (album_path year (a_name alb)))
          images w') \<noteq> None" for w'
    using assms(2) by (rule for_each_aborts) (rule assms(3))
  with assms(1) Inr show ?thesis
    unfolding process_album_def by (simp add: and_then_aborts_right)
qed

lemma create_album_links_aborts:
  assumes "load_cached_folders cfg files = Inr all_folders" and "list_albums photos = Inr albums"
    and "alb \<in> set albums" and "list_item_in_albums photos (a_id alb) = Inr images"
    and "img \<in> set images"
    and "\<And>apath w. fst (process_image env cfg all_folders (a_name alb) apath img w) \<noteq> None"
  shows "fst (create_album_links env photos cfg files w) \<noteq> None"
proof -
  have pa: "fst (process_album env photos cfg all_folders alb w') \<noteq> None" for w'
    using assms(4,5,6) by (rule process_album_aborts)
  have "fst (for_each (process_album env photos cfg all_folders) albums w) \<noteq> None"
    using assms(3) by (rule for_each_aborts) (rule pa)
  with assms(1,2) show ?thesis by (simp add: create_album_links_def)
qed

text \<open>
  C4: an item whose folder id, as a string, is not a key of the loaded cache makes the body
  of the loop raise at once, before anything is created, an \<open>AssertionError\<close> whose
  message holds the file name and the album name; and a run that has such an item among
  the items of one of its albums ends with an exception: the item is never skipped.
\<close>

theorem missing_folder_aborts:
  assumes absent: "all_folders (str_int (i_folder_id img)) = None"
  shows "process_image env cfg all_folders album_name apath img w
           = (Some (AssertionError (''Folder ID '' @ str_int (i_folder_id img) @ '' not found for ''
                      @ i_filename img @ '' in '' @ album_name)), w)
       \<and> (\<forall>photos files albums alb images w0.
             load_cached_folders cfg files = Inr all_folders \<and> list_albums photos = Inr albums
             \<and> alb \<in> set albums \<and> list_item_in_albums photos (a_id alb) = Inr images
             \<and> img \<in> set images
             \<longrightarrow> fst (create_album_links env photos cfg files w0) \<noteq> None)"
proof -
  have p: "process_image env cfg all_folders n a img w'
             = (Some (AssertionError (''Folder ID '' @ str_int (i_folder_id img) @ '' not found for ''
                      @ i_filename img @ '' in '' @ n)), w')" for n a w'
    using absent by (simp add: process_image_def folder_not_found_message_def)
  have "fst (create_album_links env photos cfg files w0) \<noteq> None"
    if "load_cached_folders cfg files = Inr all_folders" "list_albums photos = Inr albums"
      "alb \<in> set albums" "list_item_in_albums photos (a_id alb) = Inr images" "img \<in> set images"
    for photos files albums alb images w0
    using that by (rule create_album_links_aborts) (simp add: p)
  with p show ?thesis by blast
qed

lemma load_written_cache:
  "load_cached_folders cfg (write_cache_file all_folders cfg fs)
     = Inr (map_option list_of_record \<circ> all_folders)"
proof -
  have "json_load (json_dump (dict_of_folders all_folders)) = map_option list_of_record \<circ> all_folders"
  proof (rule ext)
    fix k
    show "json_load (json_dump (dict_of_folders all_folders)) k
            = (map_option list_of_record \<circ> all_folders) k"
      by (cases "all_folders k")
        (simp_all add: json_load_def json_dump_def dict_of_folders_def tuple_of_record_def
          list_of_record_def)
  qed
  then show ?thesis
    by (simp add: load_cached_folders_def write_cache_file_def)
qed

theorem missing_folder_aborts_witness:
  "process_image plain_env default_config (map_option list_of_record \<circ> Map.empty) ''2023 Summer''
       (album_path ''2023'' ''2023 Summer'')
       \<lparr>i_filename = ''photo1.jpg'', i_folder_id = 2, i_owner = 0\<rparr> empty_world
     = (Some (AssertionError ''Folder ID 2 not found for photo1.jpg in 2023 Summer''), empty_world)
   \<and> fst (create_album_links plain_env test_client default_config
             (write_cache_file Map.empty default_config Map.empty) empty_world) \<noteq> None"
proof -
  let ?img = "\<lparr>i_filename = ''photo1.jpg'', i_folder_id = 2, i_owner = 0\<rparr>"
  let ?c = "map_option list_of_record \<circ> (Map.empty :: folders)"
  have a: "?c (str_int (i_folder_id ?img)) = None" by simp
  have s: "str_int 2 = ''2''" by code_simp
  have l: "load_cached_folders default_config (write_cache_file Map.empty default_config Map.empty)
             = Inr ?c"
    by (rule load_written_cache)
  have t: "list_albums test_client
             = Inr [\<lparr>a_id = 1, a_name = ''2023 Summer'', a_owner = 0, a_create_time = 1672531200\<rparr>]"
    "list_item_in_albums test_client 1 = Inr [?img]"
    by (simp_all add: test_client_def)
  note m = missing_folder_aborts [where all_folders = ?c and img = ?img and env = plain_env
      and cfg = default_config and album_name = "''2023 Summer''"
      and apath = "album_path ''2023'' ''2023 Summer''" and w = empty_world, OF a]
  from m have "process_image plain_env default_config ?c ''2023 Summer''
       (album_path ''2023'' ''2023 Summer'') ?img empty_world
     = (Some (AssertionError ''Folder ID 2 not found for photo1.jpg in 2023 Summer''), empty_world)"
    by (simp add: s)
  moreover from m l t have "fst (create_album_links plain_env test_client default_config
             (write_cache_file Map.empty default_config Map.empty) empty_world) \<noteq> None"
    by (metis image.select_convs(2) list.set_intros(1) album.select_convs(1))
  ultimately show ?thesis by blast
qed

lemma try_symlink_no_abort: "fst (try_symlink env st fn t p w) = None"
  by (simp add: try_symlink_def split: sum.splits)

lemma unlink_quiet_no_abort: "fst (unlink_quiet env p w) = None"
  by (simp add: unlink_quiet_def split: sum.splits)

lemma and_then_None:
  "fst (c w) = None \<Longrightarrow> and_then c d w = d (snd (c w))"
  by (cases "c w") (simp add: and_then_def)

lemma and_then_Some:
  "fst (c w) = Some e \<Longrightarrow> and_then c d w = (Some e, snd (c w))"
  by (cases "c w") (simp add: and_then_def)

lemma for_each_preserves:
  "(\<And>x w. x \<in> set xs \<Longrightarrow> f (snd (body x w)) = f w) \<Longrightarrow> f (snd (for_each body xs w)) = f w"
proof (induction xs arbitrary: w)
  case Nil
  then show ?case by simp
next
  case (Cons x xs)
  show ?case
  proof (cases "fst (body x w)")
    case None
    then show ?thesis
      using Cons.IH [of "snd (body x w)"] Cons.prems by (simp add: and_then_None)
  next
    case (Some e)
    then show ?thesis
      using Cons.prems by (simp add: and_then_Some)
  qed
qed

lemma mkdir_component_item_links:
  "item_links_made (snd (mkdir_component env l q w)) = item_links_made w"
  by (simp add: mkdir_component_def item_links_made_def split: option.splits node.splits kind.splits)

lemma mkdir_parents_item_links:
  "item_links_made (snd (mkdir_parents env p w)) = item_links_made w"
  unfolding mkdir_parents_def
  by (rule for_each_preserves) (simp add: mkdir_component_item_links split: prod.splits)

lemma owner_link_item_links:
  "item_links_made (snd (try_symlink env OwnerLink fn t p w)) = item_links_made w"
  by (simp add: try_symlink_def os_symlink_def item_links_made_def split: option.splits)

text \<open>
  C5, amended: an item whose owner id differs from the owner id of the cached record of
  its folder always makes the body of the loop raise, and no item link is created for it.
  When a photo root is configured for both owner ids (and the directory \<open>albums/users\<close>
  could be made), the exception is the \<open>AssertionError\<close> whose message names both owner
  ids, the album and the file name.
\<close>

theorem owner_mismatch_aborts:
  assumes entry: "all_folders (str_int (i_folder_id img)) = Some entry"
    and unpack: "unpack_record entry = Some (folder_name, owner_id)"
    and mismatch: "i_owner img \<noteq> owner_id"
  shows "\<exists>e w'. process_image env cfg all_folders album_name apath img w = (Some e, w')
      \<and> item_links_made w' = item_links_made w
      \<and> (PHOTO_ROOTS cfg (i_owner img) \<noteq> None \<and> PHOTO_ROOTS cfg owner_id \<noteq> None
          \<and> fst (mkdir_parents env (parent (owner_link_path (i_owner img))) w) = None
         \<longrightarrow> e = AssertionError (''Image owner ID '' @ str_int (i_owner img)
                   @ '' does not match owner ID '' @ str_int owner_id
                   @ '' in '' @ album_name @ '' of '' @ i_filename img))"
proof (cases "PHOTO_ROOTS cfg (i_owner img)")
  case None
  with entry show ?thesis by (simp add: process_image_def Let_def)
next
  case (Some root)
  let ?m = "mkdir_parents env (parent (owner_link_path (i_owner img)))"
  let ?o = "try_symlink env OwnerLink (i_filename img) (str_path (parse_path root))
              (owner_link_path (i_owner img))"
  show ?thesis
  proof (cases "fst (?m w)")
    case (Some e)
    with entry \<open>PHOTO_ROOTS cfg (i_owner img) = Some root\<close> show ?thesis
      by (simp add: process_image_def Let_def and_then_Some mkdir_parents_item_links)
  next
    case None
    let ?w1 = "snd (?o (snd (?m w)))"
    have l: "item_links_made ?w1 = item_links_made w"
      by (simp add: owner_link_item_links mkdir_parents_item_links)
    from None entry unpack mismatch \<open>PHOTO_ROOTS cfg (i_owner img) = Some root\<close>
    have "process_image env cfg all_folders album_name apath img w
            = (if PHOTO_ROOTS cfg owner_id = None
               then (Some (AssertionError (no_photo_root_message owner_id album_name (i_filename img))), ?w1)
               else (Some (AssertionError
                       (owner_mismatch_message (i_owner img) owner_id album_name (i_filename img))), ?w1))"
      by (simp add: process_image_def Let_def and_then_None try_symlink_no_abort)
    with l None show ?thesis
      by (auto simp: owner_mismatch_message_def)
  qed
qed

text \<open>
  C5, as stated, fails: the check that a photo root is configured for the owner of the
  folder comes first. With photo roots for the owners 0 and 2 only, an item of owner 0 in
  a folder of owner 1 raises "No photo root configured for owner ID 1 ...", a message that
  does not name the owner id of the item.
\<close>

theorem owner_mismatch_message_counterexample:
  "fst (process_image plain_env default_config [''3'' \<mapsto> PyList [PyStr ''/Shared'', PyInt 1]]
          ''Trip'' (album_path ''2023'' ''Trip'')
          \<lparr>i_filename = ''p.jpg'', i_folder_id = 3, i_owner = 0\<rparr> empty_world)
     = Some (AssertionError ''No photo root configured for owner ID 1 in Trip of p.jpg'')
   \<and> str_int 0 = ''0''
   \<and> CHR ''0'' \<notin> set ''No photo root configured for owner ID 1 in Trip of p.jpg''"
  by code_simp

theorem owner_mismatch_aborts_witness:
  "\<exists>w'. process_image plain_env default_config [''2'' \<mapsto> PyList [PyStr ''/Photos/2023'', PyInt 2]]
          ''2023 Summer'' (album_path ''2023'' ''2023 Summer'')
          \<lparr>i_filename = ''photo1.jpg'', i_folder_id = 2, i_owner = 0\<rparr> empty_world
     = (Some (AssertionError
          ''Image owner ID 0 does not match owner ID 2 in 2023 Summer of photo1.jpg''), w')
     \<and> item_links_made w' = {}"
proof -
  let ?img = "\<lparr>i_filename = ''photo1.jpg'', i_folder_id = 2, i_owner = 0\<rparr>"
  let ?c = "[''2'' \<mapsto> PyList [PyStr ''/Photos/2023'', PyInt 2]]"
  have s: "str_int 2 = ''2''" "str_int 0 = ''0''" by code_simp+
  have entry: "?c (str_int (i_folder_id ?img)) = Some (PyList [PyStr ''/Photos/2023'', PyInt 2])"
    by (simp add: s)
  have unpack: "unpack_record (PyList [PyStr ''/Photos/2023'', PyInt 2]) = Some (''/Photos/2023'', 2)"
    by simp
  have mismatch: "i_owner ?img \<noteq> 2" by simp
  have roots: "PHOTO_ROOTS default_config (i_owner ?img) \<noteq> None"
    "PHOTO_ROOTS default_config 2 \<noteq> None"
    by (simp_all add: default_config_def)
  have m: "fst (mkdir_parents plain_env (parent (owner_link_path (i_owner ?img))) empty_world) = None"
    by code_simp
  have e: "item_links_made empty_world = {}"
    by (simp add: item_links_made_def empty_world_def)
  from owner_mismatch_aborts [where all_folders = ?c and img = ?img and env = plain_env
      and cfg = default_config and album_name = "''2023 Summer''"
      and apath = "album_path ''2023'' ''2023 Summer''" and w = empty_world,
      OF entry unpack mismatch] roots m
  show ?thesis
    by (auto simp add: s e)
qed

end
